theory Spec2Isabelle
  imports Main
begin

section \<open>JavaScript values\<close>

text \<open>
  The values the managers receive from \<^verbatim>\<open>JSON.parse\<close> and read fields of. \<open>JUndefined\<close> is
  what reading an absent property gives. A number is kept as an integer: the code only ever
  tests a number for being zero. \<open>JObj\<close> lists an object's own properties, each key once.
\<close>

datatype js =
    JUndefined
  | JNull
  | JBool bool
  | JNum int
  | JStr string
  | JArr "js list"
  | JObj "(string \<times> js) list"

text \<open>ToBoolean: what \<^verbatim>\<open>if (v)\<close>, \<^verbatim>\<open>v || w\<close> and \<^verbatim>\<open>v && w\<close> test.\<close>

fun truthy :: "js \<Rightarrow> bool" where
  "truthy JUndefined = False"
| "truthy JNull = False"
| "truthy (JBool b) = b"
| "truthy (JNum n) = (n \<noteq> 0)"
| "truthy (JStr s) = (s \<noteq> [])"
| "truthy (JArr xs) = True"
| "truthy (JObj kvs) = True"


text \<open>
  The property read \<^verbatim>\<open>v.k\<close>. \<open>None\<close> is the TypeError that reading a property of
  \<^verbatim>\<open>null\<close> or \<^verbatim>\<open>undefined\<close> throws.
\<close>

fun js_get :: "js \<Rightarrow> string \<Rightarrow> js option" where
  "js_get JUndefined k = None"
| "js_get JNull k = None"
| "js_get (JObj kvs) k = Some (case map_of kvs k of Some v \<Rightarrow> v | None \<Rightarrow> JUndefined)"
| "js_get (JArr xs) k = Some (if k = ''length'' then JNum (int (length xs)) else JUndefined)"
| "js_get (JStr s) k = Some (if k = ''length'' then JNum (int (length s)) else JUndefined)"
| "js_get (JBool b) k = Some JUndefined"
| "js_get (JNum n) k = Some JUndefined"

section \<open>WebSocketManager (front/background.js and the popup build's background script)\<close>

text \<open>
  The repository holds two builds of the class. \<open>Overlay\<close> is \<^verbatim>\<open>src/front/background.js\<close>
  (it notifies the content script of the active tab); \<open>Popup\<close> is \<^verbatim>\<open>src/unnamed/part_001\<close>
  (it loads the address from the settings store, notifies the popup, asks for the
  conversation history on open and answers \<^verbatim>\<open>UPDATE_API_URL\<close> and \<^verbatim>\<open>REQUEST_HISTORY\<close>).
\<close>

datatype build = Overlay | Popup

datatype readyState = CONNECTING | OPEN | CLOSING | CLOSED

text \<open>The two closures the class hands to \<^verbatim>\<open>setTimeout\<close>.\<close>

datatype callback =
    RetryCb      \<comment> \<open>\<^verbatim>\<open>() => { if (!this.isConnected) this.connect(); }\<close> of attemptReconnect\<close>
  | ConnectCb    \<comment> \<open>\<^verbatim>\<open>() => this.connect()\<close> of RECONNECT and UPDATE_API_URL\<close>

text \<open>
  What the manager asks of the browser. \<open>Notify t d\<close> is a call of
  \<^verbatim>\<open>notifyContentScript(t, d)\<close> (Overlay: the browser delivers \<open>{type: t, data: d}\<close> to the
  active tab of the current window, when there is one) or \<^verbatim>\<open>notifyPopup(t, d)\<close> (Popup:
  \<^verbatim>\<open>chrome.runtime.sendMessage\<close>). \<^verbatim>\<open>console.log\<close> lines are left out; \<^verbatim>\<open>console.error\<close>
  lines are kept.
\<close>

datatype effect =
    ConsoleError string
  | NewWebSocket nat string           \<comment> \<open>socket created, address\<close>
  | WsClose nat                       \<comment> \<open>\<^verbatim>\<open>close()\<close> called on a socket\<close>
  | WsSend nat string string nat      \<comment> \<open>socket, payload type, message, timestamp\<close>
  | Notify string js
  | NotifyOriginalTab string js       \<comment> \<open>to the tab that was active before, when there was one\<close>
  | SetTimeout callback nat
  | TabsCreate js
  | SendResponse js
  | Uncaught string                   \<comment> \<open>an exception no handler catches\<close>

text \<open>
  The fields of the class, and the part of the browser they are read against: the
  readyState of every WebSocket created so far (\<open>ws\<close> refers to one of them by its number),
  the pending timers, the clock \<^verbatim>\<open>Date.now()\<close> reads, and whether the Popup build's
  \<^verbatim>\<open>chrome.storage.sync.get\<close> is still outstanding.
\<close>

record state =
  ws :: "nat option"
  isConnected :: bool
  reconnectAttempts :: nat
  apiUrl :: string
  sockets :: "nat \<Rightarrow> readyState"
  nsockets :: nat
  timers :: "callback list"
  clock :: nat
  loading :: bool

text \<open>Assigned once in the constructor and never written again.\<close>

definition maxReconnectAttempts :: nat where
  "maxReconnectAttempts = 5"

definition reconnectDelay :: nat where
  "reconnectDelay = 1000"

text \<open>
  Every method returns the state it leaves and the effects it had, in order.
  \<open>andThen r f\<close> runs \<open>f\<close> in the state \<open>r\<close> left.
\<close>

definition andThen :: "'s \<times> 'e list \<Rightarrow> ('s \<Rightarrow> 's \<times> 'e list) \<Rightarrow> 's \<times> 'e list" where
  "andThen r f = (fst (f (fst r)), snd r @ snd (f (fst r)))"

definition ws_readyState :: "state \<Rightarrow> readyState option" where
  "ws_readyState s = map_option (sockets s) (ws s)"

definition notify :: "string \<Rightarrow> js \<Rightarrow> state \<Rightarrow> state \<times> effect list" where
  "notify t d s = (s, [Notify t d])"

definition setTimeout :: "callback \<Rightarrow> nat \<Rightarrow> state \<Rightarrow> state \<times> effect list" where
  "setTimeout cb d s = (s\<lparr>timers := timers s @ [cb]\<rparr>, [SetTimeout cb d])"

text \<open>
  \<^verbatim>\<open>WebSocket.close()\<close>: a socket that is connecting or open starts closing (its close
  event comes later); on a closing or closed socket the call does nothing.
\<close>

definition ws_close :: "nat \<Rightarrow> state \<Rightarrow> state \<times> effect list" where
  "ws_close i s =
     (s\<lparr>sockets := (sockets s)
         (i := (if sockets s i = CLOSING \<or> sockets s i = CLOSED then sockets s i else CLOSING))\<rparr>,
      [WsClose i])"

definition attemptReconnect :: "state \<Rightarrow> state \<times> effect list" where
  "attemptReconnect s =
     (if isConnected s \<or> ws_readyState s = Some CONNECTING then (s, [])
      else if reconnectAttempts s < maxReconnectAttempts then
        (let s1 = s\<lparr>reconnectAttempts := reconnectAttempts s + 1\<rparr>
         in setTimeout RetryCb (reconnectDelay * reconnectAttempts s1) s1)
      else (s, []))"

text \<open>
  \<^verbatim>\<open>connect()\<close>. \<open>url_ok\<close> says for which addresses the browser's \<^verbatim>\<open>new WebSocket(url)\<close>
  returns a socket; for the others it throws and the \<^verbatim>\<open>catch\<close> runs. The handlers the code
  attaches to the new socket are \<open>onopen\<close>, \<open>onmessage\<close>, \<open>onclose\<close> and \<open>onerror\<close> below.
\<close>

definition connect :: "(string \<Rightarrow> bool) \<Rightarrow> state \<Rightarrow> state \<times> effect list" where
  "connect url_ok s =
     (if isConnected s \<or> ws_readyState s = Some CONNECTING then (s, [])
      else
        andThen
          (case ws s of
             Some i \<Rightarrow> if sockets s i \<noteq> CLOSED then ws_close i s else (s, [])
           | None \<Rightarrow> (s, []))
          (\<lambda>s1. if url_ok (apiUrl s1) then
                  (s1\<lparr>ws := Some (nsockets s1),
                      sockets := (sockets s1)(nsockets s1 := CONNECTING),
                      nsockets := nsockets s1 + 1\<rparr>,
                   [NewWebSocket (nsockets s1) (apiUrl s1)])
                else
                  andThen (s1, [ConsoleError ''Failed to create WebSocket connection''])
                    attemptReconnect))"

text \<open>
  \<^verbatim>\<open>sendMessage(message, type)\<close>; the Overlay build has no second parameter and always sends
  \<^verbatim>\<open>user_message\<close>. \<open>None\<close> is the TypeError of \<^verbatim>\<open>this.ws.readyState\<close> when \<open>ws\<close> is null.
\<close>

definition send_rejected :: "state \<Rightarrow> state \<times> effect list" where
  "send_rejected s =
     andThen (s, [ConsoleError ''WebSocket is not connected''])
       (notify ''ERROR'' (JObj [(''message'', JStr ''Connection lost. Trying to reconnect...'')]))"

definition sendMessage :: "string \<Rightarrow> string \<Rightarrow> state \<Rightarrow> (state \<times> effect list) option" where
  "sendMessage message ty s =
     (if isConnected s then
        (case ws s of
           None \<Rightarrow> None
         | Some i \<Rightarrow>
             if sockets s i = OPEN then Some (s, [WsSend i ty message (clock s)])
             else Some (send_rejected s))
      else Some (send_rejected s))"

definition uncaught :: "state \<Rightarrow> state \<times> effect list" where
  "uncaught s = (s, [Uncaught ''TypeError''])"

text \<open>
  \<^verbatim>\<open>handleTabOpen(data)\<close>: the browser opens the tab and then runs the callback, which reads
  no field of the manager. Overlay sends the message to the tab that was active before;
  Popup notifies the popup.
\<close>

definition handleTabOpen :: "build \<Rightarrow> js \<Rightarrow> state \<Rightarrow> (state \<times> effect list) option" where
  "handleTabOpen b data s =
     (case (js_get data ''url'', js_get data ''message'') of
        (Some url, Some msg) \<Rightarrow>
          Some (andThen (s, [TabsCreate url])
                  (\<lambda>s1. if truthy msg then
                           (case b of
                              Overlay \<Rightarrow> (s1, [NotifyOriginalTab ''NEW_MESSAGE'' msg])
                            | Popup \<Rightarrow> notify ''NEW_MESSAGE'' msg s1)
                         else (s1, [])))
      | _ \<Rightarrow> None)"

text \<open>
  \<^verbatim>\<open>handleServerMessage(data)\<close>: the \<^verbatim>\<open>switch (data.type)\<close>. \<open>None\<close> is a TypeError, thrown
  before any effect: by \<^verbatim>\<open>data.type\<close> when \<open>data\<close> is null, and in the Overlay build by
  \<^verbatim>\<open>data.history.length\<close> when there is no history.
\<close>

definition handleServerMessage :: "build \<Rightarrow> js \<Rightarrow> state \<Rightarrow> (state \<times> effect list) option" where
  "handleServerMessage b data s =
     (case js_get data ''type'' of
        None \<Rightarrow> None
      | Some t \<Rightarrow>
          if t = JStr ''bot_response'' \<or> t = JStr ''chat_answer'' then
            map_option (\<lambda>m. notify ''NEW_MESSAGE'' m s) (js_get data ''message'')
          else if t = JStr ''open_tab'' then handleTabOpen b data s
          else if t = JStr ''conversation_history'' then
            (case js_get data ''history'' of
               None \<Rightarrow> None
             | Some h \<Rightarrow>
                 if b = Overlay \<and> js_get h ''length'' = None then None
                 else Some (notify ''CONVERSATION_HISTORY'' h s))
          else if t = JStr ''system_message'' then
            map_option (\<lambda>m. notify ''SYSTEM_MESSAGE'' m s) (js_get data ''message'')
          else Some (s, [ConsoleError ''Unknown message type'']))"

subsection \<open>The handlers of a socket\<close>

definition onopen :: "build \<Rightarrow> state \<Rightarrow> state \<times> effect list" where
  "onopen b s =
     andThen
       (notify ''CONNECTION_STATUS'' (JObj [(''connected'', JBool True)])
          (s\<lparr>isConnected := True, reconnectAttempts := 0\<rparr>))
       (\<lambda>s1. case b of
                Overlay \<Rightarrow> (s1, [])
              | Popup \<Rightarrow>
                  (case sendMessage ''sync_history'' ''sync_history'' s1 of
                     Some r \<Rightarrow> r
                   | None \<Rightarrow> uncaught s1))"

text \<open>
  \<open>onmessage\<close> gets \<^verbatim>\<open>event.data\<close> as \<^verbatim>\<open>JSON.parse\<close> reads it: \<open>None\<close> when the text is not
  JSON. The \<^verbatim>\<open>catch\<close> takes the parse error and every TypeError of the handler alike.
\<close>

definition onmessage :: "build \<Rightarrow> js option \<Rightarrow> state \<Rightarrow> state \<times> effect list" where
  "onmessage b parsed s =
     (case parsed of
        None \<Rightarrow> (s, [ConsoleError ''Error parsing WebSocket message''])
      | Some data \<Rightarrow>
          (case handleServerMessage b data s of
             Some r \<Rightarrow> r
           | None \<Rightarrow> (s, [ConsoleError ''Error parsing WebSocket message''])))"

definition onclose :: "state \<Rightarrow> state \<times> effect list" where
  "onclose s =
     andThen
       (notify ''CONNECTION_STATUS'' (JObj [(''connected'', JBool False)])
          (s\<lparr>isConnected := False\<rparr>))
       attemptReconnect"

definition onerror :: "state \<Rightarrow> state \<times> effect list" where
  "onerror s = (s\<lparr>isConnected := False\<rparr>, [ConsoleError ''WebSocket error''])"

subsection \<open>The chrome.runtime.onMessage listener\<close>

datatype runtime_message =
    SEND_MESSAGE string
  | GET_CONNECTION_STATUS
  | RECONNECT
  | UPDATE_API_URL string
  | REQUEST_HISTORY
  | OTHER string

definition sendResponse :: "js \<Rightarrow> state \<Rightarrow> state \<times> effect list" where
  "sendResponse r s = (s, [SendResponse r])"

definition success :: js where
  "success = JObj [(''success'', JBool True)]"

definition close_ws :: "state \<Rightarrow> state \<times> effect list" where
  "close_ws s = (case ws s of Some i \<Rightarrow> ws_close i s | None \<Rightarrow> (s, []))"

text \<open>
  \<open>reconnect s\<close> is the common tail of RECONNECT and UPDATE_API_URL:
  \<^verbatim>\<open>this.isConnected = false; if (this.ws) this.ws.close(); setTimeout(() => this.connect(), 100)\<close>.
\<close>

definition reconnect :: "state \<Rightarrow> state \<times> effect list" where
  "reconnect s = andThen (close_ws (s\<lparr>isConnected := False\<rparr>)) (setTimeout ConnectCb 100)"

text \<open>
  \<^verbatim>\<open>disconnect()\<close>. Nothing in the repository calls it; it is an event of its own below.
\<close>

definition disconnect :: "state \<Rightarrow> state \<times> effect list" where
  "disconnect s =
     (case ws s of
        Some i \<Rightarrow> andThen (ws_close i s) (\<lambda>s1. (s1\<lparr>ws := None, isConnected := False\<rparr>, []))
      | None \<Rightarrow> (s, []))"

fun listener :: "build \<Rightarrow> runtime_message \<Rightarrow> state \<Rightarrow> state \<times> effect list" where
  "listener Overlay (SEND_MESSAGE d) s =
     (case sendMessage d ''user_message'' s of Some r \<Rightarrow> r | None \<Rightarrow> uncaught s)"
| "listener Popup (SEND_MESSAGE d) s =
     (case sendMessage d ''user_message'' s of
        Some r \<Rightarrow> andThen r (sendResponse success)
      | None \<Rightarrow> uncaught s)"
| "listener b GET_CONNECTION_STATUS s =
     sendResponse (JObj [(''connected'', JBool (isConnected s))]) s"
| "listener Overlay RECONNECT s = reconnect s"
| "listener Popup RECONNECT s = andThen (reconnect s) (sendResponse success)"
| "listener Popup (UPDATE_API_URL url) s =
     andThen (reconnect (s\<lparr>apiUrl := url\<rparr>)) (sendResponse success)"
| "listener Popup REQUEST_HISTORY s =
     (case sendMessage ''sync_history'' ''sync_history'' s of
        Some r \<Rightarrow> andThen r (sendResponse success)
      | None \<Rightarrow> uncaught s)"
| "listener b m s = (s, [])"

subsection \<open>Construction and the event loop\<close>

definition new_manager :: "nat \<Rightarrow> state" where
  "new_manager t0 =
     \<lparr>ws = None, isConnected = False, reconnectAttempts = 0, apiUrl = ''ws://localhost:8080'',
      sockets = (\<lambda>i. CLOSED), nsockets = 0, timers = [], clock = t0, loading = False\<rparr>"

text \<open>
  The constructor: Overlay connects at once; Popup starts \<^verbatim>\<open>loadSettings()\<close>, which connects
  when the settings store has answered (\<open>SettingsLoaded\<close>).
\<close>

definition constructor :: "build \<Rightarrow> (string \<Rightarrow> bool) \<Rightarrow> nat \<Rightarrow> state \<times> effect list" where
  "constructor b url_ok t0 =
     (case b of
        Overlay \<Rightarrow> connect url_ok (new_manager t0)
      | Popup \<Rightarrow> ((new_manager t0)\<lparr>loading := True\<rparr>, []))"

text \<open>
  What the browser can deliver to the manager. A socket event names its socket. The
  browser opens only a connecting socket and delivers messages only on an open one; it
  sets a socket to CLOSED before it fires its error and close events. A timer fires only
  while it is pending. \<open>SettingsLoaded r\<close>: \<open>r = None\<close> when the read was rejected, else the
  stored \<^verbatim>\<open>apiUrl\<close> if there is one. \<open>Disconnect\<close> is a call of \<^verbatim>\<open>disconnect()\<close>; \<open>Tick d\<close> is
  \<open>d\<close> ms passing. An event the browser cannot deliver in a state changes nothing.
\<close>

datatype event =
    SockOpen nat
  | SockMessage nat "js option"
  | SockError nat
  | SockClose nat
  | TimerFire callback
  | RuntimeMessage runtime_message
  | SettingsLoaded "string option option"
  | Disconnect
  | Tick nat

definition set_socket :: "nat \<Rightarrow> readyState \<Rightarrow> state \<Rightarrow> state" where
  "set_socket i r s = s\<lparr>sockets := (sockets s)(i := r)\<rparr>"

definition loadSettings ::
  "(string \<Rightarrow> bool) \<Rightarrow> string option option \<Rightarrow> state \<Rightarrow> state \<times> effect list" where
  "loadSettings url_ok r s =
     andThen
       (case r of
          Some (Some url) \<Rightarrow> (if url \<noteq> [] then s\<lparr>apiUrl := url\<rparr> else s, [])
        | Some None \<Rightarrow> (s, [])
        | None \<Rightarrow> (s, [ConsoleError ''Failed to load settings'']))
       (connect url_ok)"

fun step :: "build \<Rightarrow> (string \<Rightarrow> bool) \<Rightarrow> event \<Rightarrow> state \<Rightarrow> state \<times> effect list" where
  "step b u (SockOpen i) s =
     (if i < nsockets s \<and> sockets s i = CONNECTING then onopen b (set_socket i OPEN s)
      else (s, []))"
| "step b u (SockMessage i parsed) s =
     (if i < nsockets s \<and> sockets s i = OPEN then onmessage b parsed s else (s, []))"
| "step b u (SockError i) s =
     (if i < nsockets s then onerror (set_socket i CLOSED s) else (s, []))"
| "step b u (SockClose i) s =
     (if i < nsockets s then onclose (set_socket i CLOSED s) else (s, []))"
| "step b u (TimerFire cb) s =
     (if cb \<in> set (timers s) then
        (let s1 = s\<lparr>timers := remove1 cb (timers s)\<rparr>
         in case cb of
              RetryCb \<Rightarrow> if \<not> isConnected s1 then connect u s1 else (s1, [])
            | ConnectCb \<Rightarrow> connect u s1)
      else (s, []))"
| "step b u (RuntimeMessage m) s = listener b m s"
| "step b u (SettingsLoaded r) s =
     (if loading s then loadSettings u r (s\<lparr>loading := False\<rparr>) else (s, []))"
| "step b u Disconnect s = disconnect s"
| "step b u (Tick d) s = (s\<lparr>clock := clock s + d\<rparr>, [])"

fun run :: "build \<Rightarrow> (string \<Rightarrow> bool) \<Rightarrow> event list \<Rightarrow> state \<Rightarrow> state \<times> effect list" where
  "run b u [] s = (s, [])"
| "run b u (e # es) s = andThen (step b u e s) (run b u es)"

text \<open>The manager from its construction through the events \<open>evs\<close>.\<close>

definition life :: "build \<Rightarrow> (string \<Rightarrow> bool) \<Rightarrow> nat \<Rightarrow> event list \<Rightarrow> state \<times> effect list" where
  "life b u t0 evs = andThen (constructor b u t0) (run b u evs)"

text \<open>The delays of the retries among some effects, oldest first.\<close>

fun retry_delays :: "effect list \<Rightarrow> nat list" where
  "retry_delays [] = []"
| "retry_delays (SetTimeout RetryCb d # es) = d # retry_delays es"
| "retry_delays (e # es) = retry_delays es"

fun is_open :: "event \<Rightarrow> bool" where
  "is_open (SockOpen i) = True"
| "is_open e = False"

text \<open>The envelopes among some effects that were handed to a channel.\<close>

fun sent :: "effect list \<Rightarrow> (string \<times> string) list" where
  "sent [] = []"
| "sent (WsSend i ty m t # es) = (ty, m) # sent es"
| "sent (e # es) = sent es"

subsection \<open>The notifiers\<close>

text \<open>
  What a notifier asks the browser to send: \<^verbatim>\<open>chrome.tabs.sendMessage(id, {type, data})\<close> to
  one tab, or \<^verbatim>\<open>chrome.runtime.sendMessage({type, data})\<close> to the extension's own contexts
  (the popup, while it is open).
\<close>

datatype delivery =
    TabsSendMessage nat string js
  | RuntimeSendMessage string js

text \<open>
  \<^verbatim>\<open>notifyContentScript(type, data)\<close> of the Overlay build. \<open>tabs\<close> is the answer of
  \<^verbatim>\<open>chrome.tabs.query({active: true, currentWindow: true})\<close>, the ids of the tabs found: the
  message goes to \<^verbatim>\<open>tabs[0]\<close>, and nothing is sent when there is none.
\<close>

definition notifyContentScript :: "nat list \<Rightarrow> string \<Rightarrow> js \<Rightarrow> delivery list" where
  "notifyContentScript tabs t d =
     (case tabs of [] \<Rightarrow> [] | tab # rest \<Rightarrow> [TabsSendMessage tab t d])"

text \<open>\<^verbatim>\<open>notifyPopup(type, data)\<close> of the Popup build.\<close>

definition notifyPopup :: "string \<Rightarrow> js \<Rightarrow> delivery list" where
  "notifyPopup t d = [RuntimeSendMessage t d]"

text \<open>
  The messages the notifier calls among some effects ask the browser to send, when every
  query of the active tab meanwhile answers \<open>tabs\<close>. The listener of the manager never reads
  the \<^verbatim>\<open>sender\<close> of a request, so these depend on nothing else.
\<close>

fun delivered :: "build \<Rightarrow> nat list \<Rightarrow> effect list \<Rightarrow> delivery list" where
  "delivered b tabs [] = []"
| "delivered b tabs (Notify t d # es) =
     (case b of Overlay \<Rightarrow> notifyContentScript tabs t d | Popup \<Rightarrow> notifyPopup t d) @
     delivered b tabs es"
| "delivered b tabs (e # es) = delivered b tabs es"

section \<open>CalendarManager\<close>

text \<open>
  A calendar event as the page holds it. A \<^verbatim>\<open>Date\<close> is its time value in milliseconds;
  \<open>None\<close> is an invalid date, whose time value is NaN.
\<close>

record CalendarEvent =
  ev_id :: js
  title :: js
  ev_start :: "int option"
  ev_end :: "int option"
  description :: js
  location :: js
  priority :: js

text \<open>\<^verbatim>\<open>v.k\<close> where \<open>v\<close> is known not to be null or undefined.\<close>

definition js_field :: "js \<Rightarrow> string \<Rightarrow> js" where
  "js_field v k = (case js_get v k of Some x \<Rightarrow> x | None \<Rightarrow> JUndefined)"



text \<open>
  The fields the message handler reads and writes: the event collection, its copy in
  \<^verbatim>\<open>localStorage\<close> under \<^verbatim>\<open>freelaince_calendar\<close> (\<open>None\<close> before the first write), and whether
  \<^verbatim>\<open>this.wsSocket\<close> is an open socket.
\<close>

record calendar =
  events :: "CalendarEvent list"
  stored :: "CalendarEvent list option"
  socket_open :: bool








subsection \<open>Conflicts\<close>

text \<open>
  \<^verbatim>\<open><\<close> on two dates compares their time values; a comparison with NaN is false.
  \<^verbatim>\<open>a > b\<close> is \<open>date_lt b a\<close>.
\<close>

fun date_lt :: "int option \<Rightarrow> int option \<Rightarrow> bool" where
  "date_lt (Some a) (Some b) = (a < b)"
| "date_lt a b = False"

definition eventsOverlap :: "CalendarEvent \<Rightarrow> CalendarEvent \<Rightarrow> bool" where
  "eventsOverlap event1 event2 =
     (date_lt (ev_start event1) (ev_end event2) \<and> date_lt (ev_start event2) (ev_end event1))"

text \<open>
  The predicate \<^verbatim>\<open>hasConflicts\<close> hands to \<^verbatim>\<open>some\<close>. The ids the page compares are strings
  and numbers, on which \<^verbatim>\<open>!==\<close> is inequality of values.
\<close>

definition conflict :: "CalendarEvent \<Rightarrow> CalendarEvent \<Rightarrow> bool" where
  "conflict event targetEvent =
     (ev_id event \<noteq> ev_id targetEvent \<and> eventsOverlap event targetEvent)"

definition hasConflicts :: "calendar \<Rightarrow> CalendarEvent \<Rightarrow> bool" where
  "hasConflicts c targetEvent = list_ex (\<lambda>event. conflict event targetEvent) (events c)"

section \<open>OffersManager\<close>

record Offer =
  offer_id :: js
  status :: js
  details :: js

text \<open>
  The offers of the page and their copy in \<^verbatim>\<open>localStorage\<close> under \<^verbatim>\<open>freelaince_offers\<close>.
\<close>

record offers_state =
  offers :: "Offer list"
  offers_stored :: "Offer list option"

text \<open>
  \<^verbatim>\<open>connectAndSendUpdate\<close> opens a socket of its own and attaches four handlers and a
  five-second timer. These are the events the browser delivers to them.
\<close>

datatype socket_event =
    Opened
  | Received "js option"          \<comment> \<open>\<^verbatim>\<open>event.data\<close> as \<^verbatim>\<open>JSON.parse\<close> reads it; \<open>None\<close>: not JSON\<close>
  | Errored
  | Closed
  | TimedOut

datatype sync_effect =
    SendUpdate string string      \<comment> \<open>the \<^verbatim>\<open>update_offer_status\<close> request: offer id, status\<close>
  | SocketClose

text \<open>
  The local \<^verbatim>\<open>responseReceived\<close> and the promise: \<open>resolved = None\<close> while it is pending.
  A promise keeps the value of the first \<^verbatim>\<open>resolve\<close>.
\<close>

record sync =
  responseReceived :: bool
  resolved :: "bool option"

definition resolve :: "bool \<Rightarrow> sync \<Rightarrow> sync" where
  "resolve v s = (if resolved s = None then s\<lparr>resolved := Some v\<rparr> else s)"

text \<open>\<^verbatim>\<open>response.type === 'offer_status_updated' && response.success\<close>, false on a TypeError.\<close>

definition acknowledged :: "js \<Rightarrow> bool" where
  "acknowledged response =
     (js_get response ''type'' = Some (JStr ''offer_status_updated'') \<and>
      truthy (js_field response ''success''))"

fun sync_step :: "string \<Rightarrow> string \<Rightarrow> socket_event \<Rightarrow> sync \<Rightarrow> sync \<times> sync_effect list" where
  "sync_step offerId newStatus Opened s = (s, [SendUpdate offerId newStatus])"
| "sync_step offerId newStatus (Received None) s = (resolve False s, [])"
| "sync_step offerId newStatus (Received (Some response)) s =
     (resolve (acknowledged response) (s\<lparr>responseReceived := True\<rparr>), [SocketClose])"
| "sync_step offerId newStatus Errored s =
     (if \<not> responseReceived s then resolve False s else s, [])"
| "sync_step offerId newStatus Closed s =
     (if \<not> responseReceived s then resolve False s else s, [])"
| "sync_step offerId newStatus TimedOut s =
     (if \<not> responseReceived s then (resolve False s, [SocketClose]) else (s, []))"

fun sync_run :: "string \<Rightarrow> string \<Rightarrow> socket_event list \<Rightarrow> sync \<Rightarrow> sync \<times> sync_effect list" where
  "sync_run offerId newStatus [] s = (s, [])"
| "sync_run offerId newStatus (e # es) s =
     andThen (sync_step offerId newStatus e s) (sync_run offerId newStatus es)"

text \<open>
  \<^verbatim>\<open>connectAndSendUpdate(wsUrl, offerId, newStatus, resolve)\<close> through the events \<open>evs\<close>. When
  \<^verbatim>\<open>new WebSocket(wsUrl)\<close> throws, the \<^verbatim>\<open>catch\<close> resolves the promise with false.
\<close>

definition connectAndSendUpdate ::
  "(string \<Rightarrow> bool) \<Rightarrow> string \<Rightarrow> string \<Rightarrow> string \<Rightarrow> socket_event list \<Rightarrow>
     sync \<times> sync_effect list" where
  "connectAndSendUpdate url_ok wsUrl offerId newStatus evs =
     (if url_ok wsUrl then
        sync_run offerId newStatus evs \<lparr>responseReceived = False, resolved = None\<rparr>
      else (\<lparr>responseReceived = False, resolved = Some False\<rparr>, []))"

text \<open>
  \<^verbatim>\<open>result.apiUrl || 'ws://localhost:8080'\<close>, where \<open>storedUrl\<close> is the \<^verbatim>\<open>apiUrl\<close> of the
  settings store.
\<close>

definition wsUrl_of :: "string option \<Rightarrow> string" where
  "wsUrl_of storedUrl =
     (case storedUrl of
        Some url \<Rightarrow> if url \<noteq> [] then url else ''ws://localhost:8080''
      | None \<Rightarrow> ''ws://localhost:8080'')"

text \<open>
  \<^verbatim>\<open>syncStatusWithServer\<close>: the value the promise has after the events, \<open>None\<close> while it is
  pending.
\<close>

definition syncStatusWithServer ::
  "(string \<Rightarrow> bool) \<Rightarrow> string option \<Rightarrow> string \<Rightarrow> string \<Rightarrow> socket_event list \<Rightarrow> bool option" where
  "syncStatusWithServer url_ok storedUrl offerId newStatus evs =
     resolved (fst (connectAndSendUpdate url_ok (wsUrl_of storedUrl) offerId newStatus evs))"

datatype offers_effect =
    SetButtonLoading string bool
  | OfferSuccess string
  | OfferError string
  | Rerender

text \<open>\<^verbatim>\<open>offer.status = newStatus\<close> on the offer \<^verbatim>\<open>find\<close> returned: the first with that id.\<close>

fun set_status :: "js \<Rightarrow> js \<Rightarrow> Offer list \<Rightarrow> Offer list" where
  "set_status oid st [] = []"
| "set_status oid st (offer # rest) =
     (if offer_id offer = oid then offer\<lparr>status := st\<rparr> # rest
      else offer # set_status oid st rest)"

text \<open>
  \<^verbatim>\<open>updateOfferStatus(offerId, newStatus)\<close>, with the events its socket sees. While the
  promise is pending the function has not got past its \<^verbatim>\<open>await\<close>.
\<close>

definition updateOfferStatus ::
  "(string \<Rightarrow> bool) \<Rightarrow> string option \<Rightarrow> string \<Rightarrow> string \<Rightarrow> socket_event list \<Rightarrow>
     offers_state \<Rightarrow> offers_state \<times> offers_effect list" where
  "updateOfferStatus url_ok storedUrl offerId newStatus evs st =
     (case syncStatusWithServer url_ok storedUrl offerId newStatus evs of
        None \<Rightarrow> (st, [SetButtonLoading offerId True])
      | Some serverSuccess \<Rightarrow>
          andThen
            (if serverSuccess then
               (case find (\<lambda>offer. offer_id offer = JStr offerId) (offers st) of
                  Some offer \<Rightarrow>
                    (let updated = set_status (JStr offerId) (JStr newStatus) (offers st)
                     in (st\<lparr>offers := updated, offers_stored := Some updated\<rparr>,
                         [SetButtonLoading offerId True, Rerender,
                          OfferSuccess (''Offer status updated to '' @ newStatus)]))
                | None \<Rightarrow> (st, [SetButtonLoading offerId True]))
             else
               (st, [SetButtonLoading offerId True,
                     OfferError ''Failed to update offer status on server'']))
            (\<lambda>st1. (st1, [SetButtonLoading offerId False])))"

text \<open>The first event that is not the socket's opening, if there is one.\<close>

definition first_reply :: "socket_event list \<Rightarrow> socket_event option" where
  "first_reply evs =
     (case dropWhile (\<lambda>e. e = Opened) evs of [] \<Rightarrow> None | e # rest \<Rightarrow> Some e)"

fun is_acknowledgment :: "socket_event \<Rightarrow> bool" where
  "is_acknowledgment (Received (Some response)) = acknowledged response"
| "is_acknowledgment e = False"

section \<open>Notions the theorems use\<close>

text \<open>
  \<open>retries_extend s r\<close>: from the state \<open>s\<close> to the outcome \<open>r\<close> the retry counter grew within
  its bound, and the retries scheduled meanwhile are those numbered from the old count
  plus one to the new count, each with its delay. \<open>quiet s r\<close>: the counter is the same and
  no retry was scheduled.
\<close>

definition retries_extend :: "state \<Rightarrow> state \<times> effect list \<Rightarrow> bool" where
  "retries_extend s r =
     (reconnectAttempts s \<le> reconnectAttempts (fst r) \<and>
      reconnectAttempts (fst r) \<le> maxReconnectAttempts \<and>
      retry_delays (snd r) =
        map (\<lambda>k. reconnectDelay * k) [Suc (reconnectAttempts s) ..< Suc (reconnectAttempts (fst r))])"

definition quiet :: "state \<Rightarrow> state \<times> effect list \<Rightarrow> bool" where
  "quiet s r = (reconnectAttempts (fst r) = reconnectAttempts s \<and> retry_delays (snd r) = [])"

text \<open>
  The invariant of the manager: a socket that is connecting or open is the one \<open>ws\<close>
  refers to; \<open>isConnected\<close> holds only while that socket is open; the retry counter is
  within its bound.
\<close>

fun live :: "readyState \<Rightarrow> bool" where
  "live CONNECTING = True"
| "live OPEN = True"
| "live CLOSING = False"
| "live CLOSED = False"

definition wf_state :: "state \<Rightarrow> bool" where
  "wf_state s =
     ((\<forall>i. live (sockets s i) \<longrightarrow> ws s = Some i) \<and>
      (isConnected s \<longrightarrow> ws_readyState s = Some OPEN) \<and>
      reconnectAttempts s \<le> maxReconnectAttempts)"

text \<open>The case labels of \<^verbatim>\<open>handleServerMessage\<close>, and a message that matches none of them.\<close>

definition registered :: "string list" where
  "registered = [''bot_response'', ''chat_answer'', ''open_tab'', ''conversation_history'',
     ''system_message'']"

definition unregistered :: "js \<Rightarrow> bool" where
  "unregistered d = (\<forall>t \<in> set registered. js_get d ''type'' \<noteq> Some (JStr t))"

definition deliverable :: "nat \<Rightarrow> state \<Rightarrow> bool" where
  "deliverable i s = (i < nsockets s \<and> sockets s i = OPEN)"

definition error_notification :: effect where
  "error_notification =
     Notify ''ERROR'' (JObj [(''message'', JStr ''Connection lost. Trying to reconnect...'')])"

text \<open>
  For the examples: a browser that makes a socket for every address, a \<^verbatim>\<open>Date\<close> constructor
  that finds every value invalid, and a \<^verbatim>\<open>generateId()\<close> that always draws the same id.
\<close>

definition accepts_all :: "string \<Rightarrow> bool" where
  "accepts_all url = True"



section \<open>The retry schedule\<close>

lemmas model_defs = life_def constructor_def new_manager_def connect_def attemptReconnect_def
  andThen_def ws_readyState_def ws_close_def setTimeout_def notify_def onopen_def onclose_def
  onerror_def onmessage_def handleServerMessage_def handleTabOpen_def sendMessage_def
  send_rejected_def uncaught_def set_socket_def loadSettings_def reconnect_def close_ws_def
  sendResponse_def success_def maxReconnectAttempts_def reconnectDelay_def Let_def
  accepts_all_def

lemma fst_andThen: "fst (andThen r f) = fst (f (fst r))"
  by (simp add: andThen_def)

lemma snd_andThen: "snd (andThen r f) = snd r @ snd (f (fst r))"
  by (simp add: andThen_def)

lemma retry_delays_append: "retry_delays (xs @ ys) = retry_delays xs @ retry_delays ys"
  by (induction xs rule: retry_delays.induct) simp_all

lemma sent_append: "sent (xs @ ys) = sent xs @ sent ys"
  by (induction xs rule: sent.induct) simp_all

lemma upt_join: "i \<le> j \<Longrightarrow> j \<le> k \<Longrightarrow> [i..<j] @ [j..<k] = [i..<k]"
  by (metis le_add_diff_inverse upt_add_eq_append)

lemma quiet_extend:
  "quiet s r \<Longrightarrow> reconnectAttempts s \<le> maxReconnectAttempts \<Longrightarrow> retries_extend s r"
  by (simp add: quiet_def retries_extend_def)

lemma extend_andThen:
  assumes 1: "retries_extend s r" and 2: "retries_extend (fst r) (f (fst r))"
  shows "retries_extend s (andThen r f)"
proof -
  let ?a = "reconnectAttempts s" and ?b = "reconnectAttempts (fst r)"
    and ?c = "reconnectAttempts (fst (f (fst r)))"
  have "[Suc ?a ..< Suc ?b] @ [Suc ?b ..< Suc ?c] = [Suc ?a ..< Suc ?c]"
    using 1 2 by (intro upt_join) (simp_all add: retries_extend_def)
  then have "map (\<lambda>k. reconnectDelay * k) [Suc ?a ..< Suc ?b] @
        map (\<lambda>k. reconnectDelay * k) [Suc ?b ..< Suc ?c] =
        map (\<lambda>k. reconnectDelay * k) [Suc ?a ..< Suc ?c]"
    by (simp only: flip: map_append)
  then show ?thesis
    using 1 2
    by (simp add: retries_extend_def fst_andThen snd_andThen retry_delays_append del: upt_Suc)
qed

lemma quiet_andThen:
  "quiet s r \<Longrightarrow> quiet (fst r) (f (fst r)) \<Longrightarrow> quiet s (andThen r f)"
  by (simp add: quiet_def fst_andThen snd_andThen retry_delays_append)

lemma quiet_then_extend:
  "quiet s r \<Longrightarrow> retries_extend (fst r) (f (fst r)) \<Longrightarrow> retries_extend s (andThen r f)"
  by (simp add: quiet_def retries_extend_def fst_andThen snd_andThen retry_delays_append)

lemma quiet_notify: "quiet s (notify t d s)"
  by (simp add: quiet_def notify_def)

lemma quiet_ws_close: "quiet s (ws_close i s)"
  by (simp add: quiet_def ws_close_def)

lemma quiet_send_rejected: "quiet s (send_rejected s)"
  by (simp add: send_rejected_def notify_def andThen_def quiet_def)

lemma quiet_sendMessage: "sendMessage m t s = Some r \<Longrightarrow> quiet s r"
  by (auto simp: sendMessage_def quiet_send_rejected split: if_splits option.splits)
     (simp add: quiet_def)

lemma quiet_handleTabOpen: "handleTabOpen b d s = Some r \<Longrightarrow> quiet s r"
  by (cases b) (auto simp: handleTabOpen_def quiet_def notify_def andThen_def split: option.splits)

lemma quiet_handleServerMessage: "handleServerMessage b d s = Some r \<Longrightarrow> quiet s r"
  by (auto simp: handleServerMessage_def quiet_notify split: option.splits if_splits
        dest: quiet_handleTabOpen)
     (simp_all add: quiet_def)

lemma quiet_onmessage: "quiet s (onmessage b p s)"
  by (auto simp: onmessage_def quiet_handleServerMessage split: option.splits)
     (simp_all add: quiet_def)

lemma quiet_reconnect: "reconnectAttempts s1 = reconnectAttempts s \<Longrightarrow> quiet s (reconnect s1)"
  by (simp add: reconnect_def quiet_def fst_andThen snd_andThen retry_delays_append setTimeout_def
        close_ws_def ws_close_def split: option.split)

lemma quiet_listener: "quiet s (listener b m s)"
proof (cases "(b, m, s)" rule: listener.cases)
  case (1 d s')
  then show ?thesis
    by (auto split: option.splits dest: quiet_sendMessage) (simp add: quiet_def uncaught_def)
next
  case (2 d s')
  then show ?thesis
    by (auto split: option.splits dest!: quiet_sendMessage)
       (simp_all add: quiet_def uncaught_def fst_andThen snd_andThen retry_delays_append
          sendResponse_def)
next
  case (3 b' s')
  then show ?thesis by (simp add: quiet_def sendResponse_def)
next
  case (4 s')
  then show ?thesis by (simp add: quiet_reconnect)
next
  case (5 s')
  then show ?thesis
    by simp (intro quiet_andThen quiet_reconnect; simp add: quiet_def sendResponse_def)
next
  case (6 url s')
  then show ?thesis
    by simp (intro quiet_andThen quiet_reconnect; simp add: quiet_def sendResponse_def)
next
  case (7 s')
  then show ?thesis
    by (auto split: option.splits dest!: quiet_sendMessage)
       (simp_all add: quiet_def uncaught_def fst_andThen snd_andThen retry_delays_append
          sendResponse_def)
qed (simp_all add: quiet_def)

lemma quiet_disconnect: "quiet s (disconnect s)"
  by (simp add: disconnect_def quiet_def fst_andThen snd_andThen ws_close_def split: option.split)

lemma extend_attemptReconnect:
  "reconnectAttempts s \<le> maxReconnectAttempts \<Longrightarrow> retries_extend s (attemptReconnect s)"
  by (simp add: retries_extend_def attemptReconnect_def setTimeout_def Let_def)

lemma extend_onclose:
  "reconnectAttempts s \<le> maxReconnectAttempts \<Longrightarrow> retries_extend s (onclose s)"
  unfolding onclose_def
  by (intro quiet_then_extend extend_attemptReconnect) (simp_all add: quiet_def notify_def)

lemma extend_connect:
  assumes a: "reconnectAttempts s \<le> maxReconnectAttempts"
  shows "retries_extend s (connect u s)"
proof (cases "isConnected s \<or> ws_readyState s = Some CONNECTING")
  case True
  then show ?thesis using a by (simp add: connect_def retries_extend_def)
next
  case False
  let ?r = "case ws s of Some i \<Rightarrow> if sockets s i \<noteq> CLOSED then ws_close i s else (s, [])
            | None \<Rightarrow> (s, [])"
  have q: "quiet s ?r"
    by (simp add: quiet_ws_close split: option.split) (simp add: quiet_def)
  have a1: "reconnectAttempts (fst ?r) \<le> maxReconnectAttempts"
    using q a by (simp add: quiet_def)
  have "retries_extend (fst ?r)
          (andThen (fst ?r, [ConsoleError ''Failed to create WebSocket connection''])
             attemptReconnect)"
    using a1 by (intro quiet_then_extend extend_attemptReconnect) (simp_all add: quiet_def)
  moreover have "retries_extend (fst ?r) ((fst ?r)\<lparr>ws := Some (nsockets (fst ?r)),
                      sockets := (sockets (fst ?r))(nsockets (fst ?r) := CONNECTING),
                      nsockets := nsockets (fst ?r) + 1\<rparr>,
                   [NewWebSocket (nsockets (fst ?r)) (apiUrl (fst ?r))])"
    using a1 by (simp add: retries_extend_def)
  ultimately show ?thesis
    using False q unfolding connect_def
    by (simp only: if_False) (rule quiet_then_extend, assumption, simp)
qed

lemma extend_step:
  assumes a: "reconnectAttempts s \<le> maxReconnectAttempts" and e: "\<not> is_open e"
  shows "retries_extend s (step b u e s)"
proof (cases e)
  case (SockOpen i)
  then show ?thesis using e by simp
next
  case (SockMessage i p)
  then show ?thesis
    using a by (simp add: quiet_extend quiet_onmessage) (simp add: retries_extend_def)
next
  case (SockError i)
  then show ?thesis using a by (simp add: retries_extend_def onerror_def set_socket_def)
next
  case (SockClose i)
  have "retries_extend (set_socket i CLOSED s) (onclose (set_socket i CLOSED s))"
    using a by (intro extend_onclose) (simp add: set_socket_def)
  then show ?thesis using a SockClose by (simp add: retries_extend_def set_socket_def)
next
  case (TimerFire cb)
  have "retries_extend (s\<lparr>timers := remove1 cb (timers s)\<rparr>)
          (connect u (s\<lparr>timers := remove1 cb (timers s)\<rparr>))"
    using a by (intro extend_connect) simp
  then show ?thesis
    using a TimerFire by (cases cb) (simp_all add: Let_def retries_extend_def)
next
  case (RuntimeMessage m)
  then show ?thesis using a by (simp add: quiet_extend quiet_listener)
next
  case (SettingsLoaded r)
  have "retries_extend (s\<lparr>loading := False\<rparr>) (loadSettings u r (s\<lparr>loading := False\<rparr>))"
    unfolding loadSettings_def using a
    by (intro quiet_then_extend extend_connect) (simp_all add: quiet_def split: option.splits)
  then show ?thesis using a SettingsLoaded by (simp add: retries_extend_def)
next
  case Disconnect
  then show ?thesis using a by (simp add: quiet_extend quiet_disconnect)
next
  case (Tick d)
  then show ?thesis using a by (simp add: retries_extend_def)
qed

lemma extend_run:
  "reconnectAttempts s \<le> maxReconnectAttempts \<Longrightarrow> \<forall>e \<in> set evs. \<not> is_open e \<Longrightarrow>
   retries_extend s (run b u evs s)"
proof (induction evs arbitrary: s)
  case Nil
  then show ?case by (simp add: retries_extend_def)
next
  case (Cons e evs)
  have 1: "retries_extend s (step b u e s)" using Cons.prems by (simp add: extend_step)
  then have "reconnectAttempts (fst (step b u e s)) \<le> maxReconnectAttempts"
    by (simp add: retries_extend_def)
  then have "retries_extend (fst (step b u e s)) (run b u evs (fst (step b u e s)))"
    using Cons.IH Cons.prems by simp
  then show ?case using 1 by (simp add: extend_andThen)
qed

text \<open>
  Claim C1. Take any state whose retry counter is within its bound and any events with
  no successful open among them (closes, errors, timers firing, server messages; also
  manual reconnects and address changes, whose own \<^verbatim>\<open>connect()\<close> after 100 ms is not a
  retry of \<^verbatim>\<open>attemptReconnect\<close>). Then the counter never decreases and
  stays at most 5, and the retries scheduled meanwhile are exactly those numbered from the
  old count plus one to the new count, the \<open>k\<close>-th with delay \<open>1000 * k\<close>. From a count of 0
  these are at most five retries with delays 1000, 2000, ...; from a count of 5 the list
  is empty: no further retry is scheduled.
\<close>

theorem retry_schedule:
  assumes "reconnectAttempts s \<le> maxReconnectAttempts" and "\<forall>e \<in> set evs. \<not> is_open e"
  shows "reconnectAttempts s \<le> reconnectAttempts (fst (run b u evs s)) \<and>
         reconnectAttempts (fst (run b u evs s)) \<le> 5 \<and>
         retry_delays (snd (run b u evs s)) =
           map (\<lambda>k. 1000 * k)
             [reconnectAttempts s + 1 ..< reconnectAttempts (fst (run b u evs s)) + 1]"
  using extend_run[OF assms, of b u]
  by (simp add: retries_extend_def maxReconnectAttempts_def reconnectDelay_def)

text \<open>
  The Overlay manager right after construction: its first socket fails and closes, the
  retry fires, the second socket fails and closes. Two retries, after 1000 and 2000 ms.
\<close>

theorem retry_schedule_witness:
  "retry_delays (snd (run Overlay accepts_all
      [SockError 0, SockClose 0, TimerFire RetryCb, SockError 1, SockClose 1]
      (fst (constructor Overlay accepts_all 0)))) = [1000, 2000]"
  using retry_schedule[of "fst (constructor Overlay accepts_all 0)"
      "[SockError 0, SockClose 0, TimerFire RetryCb, SockError 1, SockClose 1]" Overlay
      accepts_all]
  by (simp add: model_defs)

section \<open>The invariant\<close>

lemma wf_current: "wf_state s \<Longrightarrow> live (sockets s i) \<Longrightarrow> ws s = Some i"
  by (simp add: wf_state_def)

lemma wf_other_fields:
  "wf_state (s\<lparr>timers := ts\<rparr>) = wf_state s"
  "wf_state (s\<lparr>clock := c\<rparr>) = wf_state s"
  "wf_state (s\<lparr>loading := l\<rparr>) = wf_state s"
  "wf_state (s\<lparr>apiUrl := a\<rparr>) = wf_state s"
  "wf_state (s\<lparr>nsockets := n\<rparr>) = wf_state s"
  by (simp_all add: wf_state_def ws_readyState_def)

lemma wf_closing:
  "wf_state s \<Longrightarrow> \<not> live r \<Longrightarrow>
   wf_state (s\<lparr>sockets := (sockets s)(i := r), isConnected := False\<rparr>)"
  by (simp add: wf_state_def ws_readyState_def)

lemma wf_closing_idle:
  "wf_state s \<Longrightarrow> \<not> live r \<Longrightarrow> \<not> isConnected s \<Longrightarrow>
   wf_state (s\<lparr>sockets := (sockets s)(i := r)\<rparr>)"
  by (simp add: wf_state_def ws_readyState_def)

lemma wf_disconnected: "wf_state s \<Longrightarrow> wf_state (s\<lparr>isConnected := False\<rparr>)"
  by (simp add: wf_state_def ws_readyState_def)

lemma wf_opened:
  assumes "wf_state s" "sockets s i = CONNECTING"
  shows "wf_state (s\<lparr>sockets := (sockets s)(i := OPEN), isConnected := True,
                     reconnectAttempts := 0\<rparr>)"
proof -
  have c: "ws s = Some i" using assms by (simp add: wf_current)
  show ?thesis using assms(1) c by (simp add: wf_state_def ws_readyState_def)
qed

lemma wf_created:
  assumes "wf_state s" "\<not> isConnected s" "\<forall>j. \<not> live (sockets s j)"
  shows "wf_state (s\<lparr>ws := Some n, sockets := (sockets s)(n := CONNECTING)\<rparr>)"
  using assms by (simp add: wf_state_def ws_readyState_def)

lemma wf_attemptReconnect: "wf_state s \<Longrightarrow> wf_state (fst (attemptReconnect s))"
  by (simp add: attemptReconnect_def setTimeout_def Let_def wf_other_fields)
     (simp add: wf_state_def ws_readyState_def)

lemma wf_ws_close: "wf_state s \<Longrightarrow> \<not> isConnected s \<Longrightarrow> wf_state (fst (ws_close i s))"
  by (simp add: ws_close_def wf_closing_idle)

lemma isConnected_ws_close: "isConnected (fst (ws_close i s)) = isConnected s"
  by (simp add: ws_close_def)

lemma not_live_ws_close: "\<not> live (sockets (fst (ws_close i s)) i)"
  by (cases "sockets s i") (simp_all add: ws_close_def)

lemma connect_new:
  assumes w: "wf_state s" and c: "\<not> isConnected s" and n: "ws_readyState s \<noteq> Some CONNECTING"
  shows "wf_state (fst (connect u s))"
proof -
  let ?r = "case ws s of Some i \<Rightarrow> if sockets s i \<noteq> CLOSED then ws_close i s else (s, [])
            | None \<Rightarrow> (s, [])"
  have w1: "wf_state (fst ?r)" using w c by (simp add: wf_ws_close split: option.split)
  have c1: "\<not> isConnected (fst ?r)"
    using c by (simp add: isConnected_ws_close split: option.split)
  have n1: "\<not> live (sockets (fst ?r) j)" for j
  proof (cases "ws s = Some j")
    case True
    then show ?thesis by (simp add: not_live_ws_close)
  next
    case False
    then have "\<not> live (sockets s j)" using wf_current[OF w] by blast
    then show ?thesis using False by (simp add: ws_close_def split: option.split)
  qed
  have 1: "wf_state ((fst ?r)\<lparr>ws := Some (nsockets (fst ?r)),
                      sockets := (sockets (fst ?r))(nsockets (fst ?r) := CONNECTING),
                      nsockets := nsockets (fst ?r) + 1\<rparr>)"
    using w1 c1 n1 by (simp add: wf_other_fields wf_created)
  have 2: "wf_state (fst (attemptReconnect (fst ?r)))" using w1 by (rule wf_attemptReconnect)
  show ?thesis
    using c n 1 2 by (simp add: connect_def fst_andThen)
qed

lemma wf_connect: "wf_state s \<Longrightarrow> wf_state (fst (connect u s))"
  by (cases "isConnected s \<or> ws_readyState s = Some CONNECTING")
     (simp add: connect_def, simp add: connect_new)

lemma fst_send_rejected: "fst (send_rejected s) = s"
  by (simp add: send_rejected_def fst_andThen notify_def)

lemma fst_sendMessage: "sendMessage m t s = Some r \<Longrightarrow> fst r = s"
  by (auto simp: sendMessage_def fst_send_rejected split: if_splits option.splits)

lemma fst_handleTabOpen: "handleTabOpen b d s = Some r \<Longrightarrow> fst r = s"
  by (cases b) (auto simp: handleTabOpen_def fst_andThen notify_def split: option.splits)

lemma fst_handleServerMessage: "handleServerMessage b d s = Some r \<Longrightarrow> fst r = s"
  by (auto simp: handleServerMessage_def notify_def split: option.splits if_splits
        dest: fst_handleTabOpen)

lemma fst_onmessage: "fst (onmessage b p s) = s"
  by (auto simp: onmessage_def split: option.splits dest: fst_handleServerMessage)

lemma fst_onopen: "fst (onopen b s) = s\<lparr>isConnected := True, reconnectAttempts := 0\<rparr>"
  by (cases b)
     (auto simp: onopen_def fst_andThen notify_def uncaught_def split: option.splits
        dest: fst_sendMessage)

lemma wf_onopen:
  "wf_state s \<Longrightarrow> sockets s i = CONNECTING \<Longrightarrow> wf_state (fst (onopen b (set_socket i OPEN s)))"
  by (simp add: fst_onopen set_socket_def wf_opened)

lemma wf_onerror: "wf_state s \<Longrightarrow> wf_state (fst (onerror (set_socket i CLOSED s)))"
  by (simp add: onerror_def set_socket_def wf_closing)

lemma wf_onclose: "wf_state s \<Longrightarrow> wf_state (fst (onclose (set_socket i CLOSED s)))"
  unfolding onclose_def fst_andThen
  by (rule wf_attemptReconnect) (simp add: notify_def set_socket_def wf_closing)

lemma wf_reconnect: "wf_state s \<Longrightarrow> wf_state (fst (reconnect s))"
proof -
  assume "wf_state s"
  then have "wf_state (fst (close_ws (s\<lparr>isConnected := False\<rparr>)))"
    by (simp add: close_ws_def wf_ws_close wf_disconnected split: option.split)
  then show ?thesis
    by (simp add: reconnect_def fst_andThen setTimeout_def wf_other_fields)
qed

lemma wf_disconnect: "wf_state s \<Longrightarrow> wf_state (fst (disconnect s))"
proof (cases "ws s")
  case None
  then show "wf_state s \<Longrightarrow> ?thesis" by (simp add: disconnect_def)
next
  case (Some i)
  assume w: "wf_state s"
  have "\<not> live (sockets (fst (ws_close i s)) j)" for j
  proof (cases "j = i")
    case True
    then show ?thesis by (simp add: not_live_ws_close)
  next
    case False
    then have "\<not> live (sockets s j)" using wf_current[OF w] Some by auto
    then show ?thesis using False by (simp add: ws_close_def)
  qed
  moreover have "reconnectAttempts (fst (ws_close i s)) \<le> maxReconnectAttempts"
    using w by (simp add: ws_close_def wf_state_def)
  ultimately show ?thesis
    using Some by (simp add: disconnect_def fst_andThen wf_state_def ws_readyState_def)
qed

lemma wf_listener: "wf_state s \<Longrightarrow> wf_state (fst (listener b m s))"
  by (cases "(b, m, s)" rule: listener.cases)
     (auto simp: fst_andThen sendResponse_def uncaught_def wf_reconnect wf_other_fields
        split: option.splits dest: fst_sendMessage)

lemma wf_step: "wf_state s \<Longrightarrow> wf_state (fst (step b u e s))"
proof (cases e)
  case (SockOpen i)
  then show "wf_state s \<Longrightarrow> ?thesis" by (simp add: wf_onopen)
next
  case (SockMessage i p)
  then show "wf_state s \<Longrightarrow> ?thesis" by (simp add: fst_onmessage)
next
  case (SockError i)
  then show "wf_state s \<Longrightarrow> ?thesis" by (simp add: wf_onerror)
next
  case (SockClose i)
  then show "wf_state s \<Longrightarrow> ?thesis" by (simp add: wf_onclose)
next
  case (TimerFire cb)
  then show "wf_state s \<Longrightarrow> ?thesis"
    by (cases cb) (simp_all add: Let_def wf_connect wf_other_fields)
next
  case (RuntimeMessage m)
  then show "wf_state s \<Longrightarrow> ?thesis" by (simp add: wf_listener)
next
  case (SettingsLoaded r)
  assume w: "wf_state s"
  then have "wf_state (fst (case r of
          Some (Some url) \<Rightarrow>
            (if url \<noteq> [] then s\<lparr>loading := False, apiUrl := url\<rparr> else s\<lparr>loading := False\<rparr>, [])
        | Some None \<Rightarrow> (s\<lparr>loading := False\<rparr>, [])
        | None \<Rightarrow> (s\<lparr>loading := False\<rparr>, [ConsoleError ''Failed to load settings''])))"
    by (simp add: wf_other_fields split: option.splits)
  then show ?thesis using w SettingsLoaded
    by (simp add: loadSettings_def fst_andThen wf_connect)
next
  case Disconnect
  then show "wf_state s \<Longrightarrow> ?thesis" by (simp add: wf_disconnect)
next
  case (Tick d)
  then show "wf_state s \<Longrightarrow> ?thesis" by (simp add: wf_other_fields)
qed

lemma wf_run: "wf_state s \<Longrightarrow> wf_state (fst (run b u evs s))"
  by (induction evs arbitrary: s) (simp_all add: fst_andThen wf_step)

lemma wf_new_manager: "wf_state (new_manager t0)"
  by (simp add: wf_state_def new_manager_def ws_readyState_def)

lemma wf_constructor: "wf_state (fst (constructor b u t0))"
  using wf_new_manager[of t0]
  by (cases b) (simp_all add: constructor_def wf_connect wf_other_fields)

lemma wf_life: "wf_state (fst (life b u t0 evs))"
  by (simp add: life_def fst_andThen wf_run wf_constructor)

section \<open>Sending and connecting\<close>

lemma connected_has_socket:
  "isConnected (fst (life b u t0 evs)) \<Longrightarrow> ws (fst (life b u t0 evs)) \<noteq> None"
  using wf_life[of b u t0 evs] by (auto simp: wf_state_def ws_readyState_def)

text \<open>
  Claim C2, as the spec states it, fails. The Overlay manager right after construction is
  not connected (its socket is still connecting). A \<^verbatim>\<open>SEND_MESSAGE\<close> request is rejected, but
  when the current window has no active tab \<^verbatim>\<open>notifyContentScript\<close> sends nothing: no
  notification reaches the surface that asked, or any other.
\<close>

theorem no_active_tab_counterexample:
  "\<not> isConnected (fst (life Overlay accepts_all 0 [])) \<and>
   delivered Overlay []
     (snd (step Overlay accepts_all (RuntimeMessage (SEND_MESSAGE ''hi''))
        (fst (life Overlay accepts_all 0 [])))) = []"
  by (simp add: model_defs notifyContentScript_def)

text \<open>
  Claim C2, amended. Take any state in which the guard of \<^verbatim>\<open>sendMessage\<close> fails: the flag
  \<open>isConnected\<close> is unset, or it is set and the socket is not open (\<open>ws\<close> is a socket whenever
  the flag is set; that holds in every state the manager reaches, by the last conjunct).
  Then \<^verbatim>\<open>sendMessage\<close> returns at once with the state as it was, having logged one error and
  called the notifier once, with \<^verbatim>\<open>ERROR\<close>, and nothing else: no \<open>WsSend\<close>, so no envelope
  reaches the channel, and no field changed, so the message is kept nowhere for later. The
  same holds of the \<^verbatim>\<open>SEND_MESSAGE\<close> request that calls it (the Popup build also answers the
  request). What the one notifier call sends depends on the build and not on who asked: in
  the Overlay build one message to the first active tab of the current window, and none
  when there is no such tab; in the Popup build one \<^verbatim>\<open>chrome.runtime.sendMessage\<close>.
\<close>

theorem send_while_not_connected:
  assumes "\<not> (isConnected s \<and> ws_readyState s = Some OPEN)"
    and "isConnected s \<longrightarrow> ws s \<noteq> None"
  shows "sendMessage m ty s =
           Some (s, [ConsoleError ''WebSocket is not connected'', error_notification]) \<and>
         step b u (RuntimeMessage (SEND_MESSAGE m)) s =
           (s, [ConsoleError ''WebSocket is not connected'', error_notification] @
               (case b of Overlay \<Rightarrow> [] | Popup \<Rightarrow> [SendResponse success])) \<and>
         sent (snd (step b u (RuntimeMessage (SEND_MESSAGE m)) s)) = [] \<and>
         delivered Overlay tabs (snd (step Overlay u (RuntimeMessage (SEND_MESSAGE m)) s)) =
           (case tabs of
              [] \<Rightarrow> []
            | tab # rest \<Rightarrow>
                [TabsSendMessage tab ''ERROR''
                   (JObj [(''message'', JStr ''Connection lost. Trying to reconnect...'')])]) \<and>
         delivered Popup tabs (snd (step Popup u (RuntimeMessage (SEND_MESSAGE m)) s)) =
           [RuntimeSendMessage ''ERROR''
              (JObj [(''message'', JStr ''Connection lost. Trying to reconnect...'')])] \<and>
         (isConnected (fst (life b u t0 evs)) \<longrightarrow> ws (fst (life b u t0 evs)) \<noteq> None)"
proof -
  have 1: "sendMessage m ty s =
      Some (s, [ConsoleError ''WebSocket is not connected'', error_notification])" for m ty
  proof (cases "isConnected s")
    case False
    then show ?thesis
      by (simp add: sendMessage_def send_rejected_def andThen_def notify_def
          error_notification_def)
  next
    case True
    then obtain i where i: "ws s = Some i" using assms(2) by auto
    then have "sockets s i \<noteq> OPEN" using assms(1) True by (simp add: ws_readyState_def)
    then show ?thesis
      using True i
      by (simp add: sendMessage_def send_rejected_def andThen_def notify_def
          error_notification_def)
  qed
  have 2: "step b u (RuntimeMessage (SEND_MESSAGE m)) s =
      (s, [ConsoleError ''WebSocket is not connected'', error_notification] @
          (case b of Overlay \<Rightarrow> [] | Popup \<Rightarrow> [SendResponse success]))" for b
    by (cases b) (simp_all add: 1 andThen_def sendResponse_def)
  have 3: "sent (snd (step b u (RuntimeMessage (SEND_MESSAGE m)) s)) = []"
    unfolding 2 by (cases b) (simp_all add: error_notification_def)
  have 4: "delivered Overlay tabs (snd (step Overlay u (RuntimeMessage (SEND_MESSAGE m)) s)) =
      (case tabs of
         [] \<Rightarrow> []
       | tab # rest \<Rightarrow>
           [TabsSendMessage tab ''ERROR''
              (JObj [(''message'', JStr ''Connection lost. Trying to reconnect...'')])])"
    unfolding 2 by (simp add: error_notification_def notifyContentScript_def)
  have 5: "delivered Popup tabs (snd (step Popup u (RuntimeMessage (SEND_MESSAGE m)) s)) =
      [RuntimeSendMessage ''ERROR''
         (JObj [(''message'', JStr ''Connection lost. Trying to reconnect...'')])]"
    unfolding 2 by (simp add: error_notification_def notifyPopup_def)
  have 6: "isConnected (fst (life b u t0 evs)) \<longrightarrow> ws (fst (life b u t0 evs)) \<noteq> None"
    using connected_has_socket by blast
  show ?thesis
    using 1 2 3 4 5 6 by blast
qed

text \<open>
  Two states: the Overlay manager right after construction, whose flag is unset, asked from
  a window whose active tab is tab 7; and a Popup manager whose flag is set while its socket
  is closed.
\<close>

theorem send_while_not_connected_witness:
  "step Overlay accepts_all (RuntimeMessage (SEND_MESSAGE ''hi''))
     (fst (life Overlay accepts_all 0 [])) =
     (fst (life Overlay accepts_all 0 []),
      [ConsoleError ''WebSocket is not connected'', error_notification]) \<and>
   delivered Overlay [7]
     (snd (step Overlay accepts_all (RuntimeMessage (SEND_MESSAGE ''hi''))
        (fst (life Overlay accepts_all 0 [])))) =
     [TabsSendMessage 7 ''ERROR''
        (JObj [(''message'', JStr ''Connection lost. Trying to reconnect...'')])] \<and>
   step Popup accepts_all (RuntimeMessage (SEND_MESSAGE ''hi''))
     ((new_manager 0)\<lparr>ws := Some 0, isConnected := True\<rparr>) =
     ((new_manager 0)\<lparr>ws := Some 0, isConnected := True\<rparr>,
      [ConsoleError ''WebSocket is not connected'', error_notification,
       SendResponse success])"
proof -
  have h1: "\<not> (isConnected (fst (life Overlay accepts_all 0 [])) \<and>
               ws_readyState (fst (life Overlay accepts_all 0 [])) = Some OPEN)"
    and h2: "isConnected (fst (life Overlay accepts_all 0 [])) \<longrightarrow>
               ws (fst (life Overlay accepts_all 0 [])) \<noteq> None"
    by (simp_all add: model_defs)
  have k1: "\<not> (isConnected ((new_manager 0)\<lparr>ws := Some 0, isConnected := True\<rparr>) \<and>
               ws_readyState ((new_manager 0)\<lparr>ws := Some 0, isConnected := True\<rparr>) =
                 Some OPEN)"
    and k2: "isConnected ((new_manager 0)\<lparr>ws := Some 0, isConnected := True\<rparr>) \<longrightarrow>
               ws ((new_manager 0)\<lparr>ws := Some 0, isConnected := True\<rparr>) \<noteq> None"
    by (simp_all add: new_manager_def ws_readyState_def)
  note overlay = send_while_not_connected[OF h1 h2, of "''hi''" "''user_message''" Overlay
      accepts_all "[7]" 0 "[]"]
  note popup = send_while_not_connected[OF k1 k2, of "''hi''" "''user_message''" Popup
      accepts_all "[]" 0 "[]"]
  have 1: "step Overlay accepts_all (RuntimeMessage (SEND_MESSAGE ''hi''))
      (fst (life Overlay accepts_all 0 [])) =
      (fst (life Overlay accepts_all 0 []),
       [ConsoleError ''WebSocket is not connected'', error_notification])"
    using overlay[THEN conjunct2, THEN conjunct1] by (simp del: step.simps)
  have 2: "step Popup accepts_all (RuntimeMessage (SEND_MESSAGE ''hi''))
      ((new_manager 0)\<lparr>ws := Some 0, isConnected := True\<rparr>) =
      ((new_manager 0)\<lparr>ws := Some 0, isConnected := True\<rparr>,
       [ConsoleError ''WebSocket is not connected'', error_notification,
        SendResponse success])"
    using popup[THEN conjunct2, THEN conjunct1] by (simp del: step.simps)
  have 3: "delivered Overlay [7]
      (snd (step Overlay accepts_all (RuntimeMessage (SEND_MESSAGE ''hi''))
         (fst (life Overlay accepts_all 0 [])))) =
      [TabsSendMessage 7 ''ERROR''
         (JObj [(''message'', JStr ''Connection lost. Trying to reconnect...'')])]"
    using overlay[THEN conjunct2, THEN conjunct2, THEN conjunct2, THEN conjunct1]
    by (simp del: step.simps)
  show ?thesis
    using 1 2 3 by blast
qed

text \<open>
  Claim C5. When the manager is connected, or its socket is connecting, \<^verbatim>\<open>connect()\<close>
  returns the state it was given and has no effect: no socket is created or closed, and
  the connection flag, the retry counter and \<open>ws\<close> are what they were.
\<close>

theorem connect_idempotent:
  "isConnected s \<or> ws_readyState s = Some CONNECTING \<Longrightarrow> connect u s = (s, [])"
  by (simp add: connect_def)

theorem connect_idempotent_witness:
  "ws_readyState (fst (life Overlay accepts_all 0 [])) = Some CONNECTING \<and>
   connect accepts_all (fst (life Overlay accepts_all 0 [])) =
     (fst (life Overlay accepts_all 0 []), [])"
proof -
  have h: "ws_readyState (fst (life Overlay accepts_all 0 [])) = Some CONNECTING"
    by (simp add: model_defs)
  show ?thesis
    using connect_idempotent[OF disjI2, OF h, of accepts_all] h by simp
qed

section \<open>Routing\<close>

text \<open>
  Claim C6, as stated, fails: the manager keeps no record of what it sent. Connected, the
  Overlay manager is asked twice to send the same text at the same clock reading, and
  hands two envelopes to the channel.
\<close>

theorem no_deduplication_counterexample:
  "snd (run Overlay accepts_all
     [RuntimeMessage (SEND_MESSAGE ''hello''), RuntimeMessage (SEND_MESSAGE ''hello'')]
     (fst (life Overlay accepts_all 0 [SockOpen 0]))) =
   [WsSend 0 ''user_message'' ''hello'' 0, WsSend 0 ''user_message'' ''hello'' 0]"
  by (simp add: model_defs)

lemma send_connected:
  assumes "isConnected s" "ws s = Some i" "sockets s i = OPEN"
  shows "step b u (RuntimeMessage (SEND_MESSAGE m)) s =
           (s, WsSend i ''user_message'' m (clock s) #
               (case b of Overlay \<Rightarrow> [] | Popup \<Rightarrow> [SendResponse success]))"
  using assms by (cases b) (simp_all add: sendMessage_def andThen_def sendResponse_def)

text \<open>
  Claim C6, amended. While the manager is connected, every \<^verbatim>\<open>SEND_MESSAGE\<close> request hands
  exactly one \<^verbatim>\<open>user_message\<close> envelope to the channel, whatever was sent before: the
  envelopes sent for the texts \<open>ms\<close> are those texts, in order, repetitions included. So a
  repeated text is sent again, and a text that differs from the earlier ones is never
  dropped.
\<close>

theorem every_send_is_handed_over:
  assumes "isConnected s" "ws s = Some i" "sockets s i = OPEN"
  shows "sent (snd (run b u (map (\<lambda>m. RuntimeMessage (SEND_MESSAGE m)) ms) s)) =
           map (\<lambda>m. (''user_message'', m)) ms"
proof (induction ms)
  case Nil
  then show ?case by simp
next
  case (Cons m ms)
  have st: "step b u (RuntimeMessage (SEND_MESSAGE m)) s =
           (s, WsSend i ''user_message'' m (clock s) #
               (case b of Overlay \<Rightarrow> [] | Popup \<Rightarrow> [SendResponse success]))"
    by (rule send_connected[OF assms])
  show ?case
    using Cons st by (cases b) (simp_all add: andThen_def sent_append del: step.simps)
qed

theorem every_send_is_handed_over_witness:
  "sent (snd (run Overlay accepts_all
      [RuntimeMessage (SEND_MESSAGE ''a''), RuntimeMessage (SEND_MESSAGE ''a''),
       RuntimeMessage (SEND_MESSAGE ''b'')]
      (fst (life Overlay accepts_all 0 [SockOpen 0])))) =
   [(''user_message'', ''a''), (''user_message'', ''a''), (''user_message'', ''b'')]"
proof -
  let ?s = "fst (life Overlay accepts_all 0 [SockOpen 0])"
  have 1: "isConnected ?s" and 2: "ws ?s = Some 0" and 3: "sockets ?s 0 = OPEN"
    by (simp_all add: model_defs)
  show ?thesis
    using every_send_is_handed_over[OF 1 2 3, of Overlay accepts_all "[''a'', ''a'', ''b'']"]
    by simp
qed

text \<open>
  Claim C7. A message that is not JSON, or whose \<^verbatim>\<open>type\<close> is none of the case labels
  (also when it has no \<^verbatim>\<open>type\<close>, or is \<^verbatim>\<open>null\<close>), is logged and dropped: \<open>onmessage\<close> returns
  the state it was given with one \<^verbatim>\<open>console.error\<close> line as its only effect, so no handler
  ran, nothing was notified, sent or scheduled. Whatever events follow are processed as
  if the message had not come: the run ends in the same state with the same effects, but
  for that one line.
\<close>

theorem bad_message_dropped:
  assumes "parsed = None \<or> (\<exists>d. parsed = Some d \<and> unregistered d)"
  shows "\<exists>line. onmessage b parsed s = (s, [ConsoleError line]) \<and>
           (\<forall>evs. run b u (SockMessage i parsed # evs) s =
              (fst (run b u evs s),
               (if deliverable i s then [ConsoleError line] else []) @ snd (run b u evs s)))"
proof -
  have "\<exists>line. onmessage b parsed s = (s, [ConsoleError line])"
    using assms
    by (auto simp: onmessage_def handleServerMessage_def unregistered_def registered_def
        split: option.splits)
  then obtain line where l: "onmessage b parsed s = (s, [ConsoleError line])" by blast
  have "run b u (SockMessage i parsed # evs) s =
              (fst (run b u evs s),
               (if deliverable i s then [ConsoleError line] else []) @ snd (run b u evs s))"
    for evs
    by (simp add: l andThen_def deliverable_def)
  then show ?thesis using l by blast
qed

theorem bad_message_dropped_witness:
  "onmessage Overlay (Some (JObj [(''type'', JStr ''ping'')]))
     (fst (life Overlay accepts_all 0 [SockOpen 0])) =
     (fst (life Overlay accepts_all 0 [SockOpen 0]), [ConsoleError ''Unknown message type''])"
proof -
  have h: "Some (JObj [(''type'', JStr ''ping'')]) = None \<or>
           (\<exists>d. Some (JObj [(''type'', JStr ''ping'')]) = Some d \<and> unregistered d)"
    by (simp add: unregistered_def registered_def)
  show ?thesis
    using bad_message_dropped[OF h, of Overlay "fst (life Overlay accepts_all 0 [SockOpen 0])"
        accepts_all 0]
    by (simp add: onmessage_def handleServerMessage_def)
qed

section \<open>Opening and changing the address\<close>

text \<open>
  Claim C8, as stated, fails for the Overlay build. Its manager is constructed, its
  socket is connecting, the socket opens: the manager is connected, and the only effect of
  the transition is the \<^verbatim>\<open>CONNECTION_STATUS\<close> notification. Nothing is sent to the server.
\<close>

theorem open_without_sync_counterexample:
  "ws_readyState (fst (life Overlay accepts_all 0 [])) = Some CONNECTING \<and>
   ws_readyState (fst (life Overlay accepts_all 0 [SockOpen 0])) = Some OPEN \<and>
   isConnected (fst (life Overlay accepts_all 0 [SockOpen 0])) \<and>
   snd (step Overlay accepts_all (SockOpen 0) (fst (life Overlay accepts_all 0 []))) =
     [Notify ''CONNECTION_STATUS'' (JObj [(''connected'', JBool True)])]"
  by (simp add: model_defs)

text \<open>
  Claim C8, amended. In every state the manager can reach, when a connecting socket
  opens the manager marks itself connected, sets the retry counter to 0 and notifies
  \<^verbatim>\<open>CONNECTION_STATUS\<close> with \<open>connected: true\<close>. The Popup build then sends one
  \<^verbatim>\<open>sync_history\<close> request on that socket; the Overlay build sends nothing.
\<close>

theorem on_open:
  assumes "s = fst (life b u t0 evs)" and "i < nsockets s" and "sockets s i = CONNECTING"
  shows "step b u (SockOpen i) s =
           (s\<lparr>sockets := (sockets s)(i := OPEN), isConnected := True, reconnectAttempts := 0\<rparr>,
            Notify ''CONNECTION_STATUS'' (JObj [(''connected'', JBool True)]) #
              (case b of
                 Overlay \<Rightarrow> []
               | Popup \<Rightarrow> [WsSend i ''sync_history'' ''sync_history'' (clock s)]))"
proof -
  have "wf_state s" using assms(1) by (simp add: wf_life)
  then have "ws s = Some i" using assms(3) by (simp add: wf_current)
  then show ?thesis
    using assms(2,3)
    by (cases b) (simp_all add: onopen_def set_socket_def andThen_def notify_def sendMessage_def)
qed

theorem on_open_witness:
  "snd (step Popup accepts_all (SockOpen 0)
          (fst (life Popup accepts_all 7 [SettingsLoaded (Some None)]))) =
     [Notify ''CONNECTION_STATUS'' (JObj [(''connected'', JBool True)]),
      WsSend 0 ''sync_history'' ''sync_history'' 7]"
proof -
  let ?s = "fst (life Popup accepts_all 7 [SettingsLoaded (Some None)])"
  have 1: "0 < nsockets ?s" and 2: "sockets ?s 0 = CONNECTING" and 3: "clock ?s = 7"
    by (simp_all add: model_defs)
  show ?thesis
    using on_open[OF refl 1 2] 3 by simp
qed

text \<open>
  Claim C9, as stated, fails. The Popup manager's first socket fails and closes, so the
  retry counter is 1. The address is changed: the counter is still 1. The reconnection
  the change scheduled runs and its socket fails and closes too: the counter is 2. At no
  point of the cycle was it reset.
\<close>

theorem url_update_counterexample:
  "reconnectAttempts (fst (life Popup accepts_all 0
      [SettingsLoaded (Some None), SockError 0, SockClose 0])) = 1 \<and>
   reconnectAttempts (fst (life Popup accepts_all 0
      [SettingsLoaded (Some None), SockError 0, SockClose 0,
       RuntimeMessage (UPDATE_API_URL ''ws://example.org:9000'')])) = 1 \<and>
   reconnectAttempts (fst (life Popup accepts_all 0
      [SettingsLoaded (Some None), SockError 0, SockClose 0,
       RuntimeMessage (UPDATE_API_URL ''ws://example.org:9000''),
       TimerFire ConnectCb, SockError 1, SockClose 1])) = 2"
  by (simp add: model_defs)

text \<open>
  Claim C9, amended. In the Popup build an \<^verbatim>\<open>UPDATE_API_URL\<close> request stores the new
  address, marks the manager disconnected, closes the current socket if there is one,
  schedules \<^verbatim>\<open>connect()\<close> 100 ms later and answers the request; it leaves the retry counter
  as it was. When that timer fires next and the browser accepts the address, a new socket
  to the new address is created and is connecting, the counter still unchanged; the
  counter becomes 0 when that socket opens. Through whatever events follow the request,
  as long as no socket opens, the counter is never below what it was before the request.
\<close>

theorem url_update:
  "apiUrl (fst (step Popup u (RuntimeMessage (UPDATE_API_URL url)) s)) = url \<and>
   \<not> isConnected (fst (step Popup u (RuntimeMessage (UPDATE_API_URL url)) s)) \<and>
   ws_readyState (fst (step Popup u (RuntimeMessage (UPDATE_API_URL url)) s)) \<noteq> Some CONNECTING \<and>
   ws_readyState (fst (step Popup u (RuntimeMessage (UPDATE_API_URL url)) s)) \<noteq> Some OPEN \<and>
   reconnectAttempts (fst (step Popup u (RuntimeMessage (UPDATE_API_URL url)) s)) =
     reconnectAttempts s \<and>
   snd (step Popup u (RuntimeMessage (UPDATE_API_URL url)) s) =
     (case ws s of Some i \<Rightarrow> [WsClose i] | None \<Rightarrow> []) @
     [SetTimeout ConnectCb 100, SendResponse success] \<and>
   (u url \<longrightarrow>
      ws (fst (run Popup u [RuntimeMessage (UPDATE_API_URL url), TimerFire ConnectCb] s)) =
        Some (nsockets s) \<and>
      ws_readyState
        (fst (run Popup u [RuntimeMessage (UPDATE_API_URL url), TimerFire ConnectCb] s)) =
        Some CONNECTING \<and>
      last (snd (run Popup u [RuntimeMessage (UPDATE_API_URL url), TimerFire ConnectCb] s)) =
        NewWebSocket (nsockets s) url \<and>
      reconnectAttempts
        (fst (run Popup u [RuntimeMessage (UPDATE_API_URL url), TimerFire ConnectCb] s)) =
        reconnectAttempts s \<and>
      reconnectAttempts (fst (run Popup u
         [RuntimeMessage (UPDATE_API_URL url), TimerFire ConnectCb, SockOpen (nsockets s)] s)) =
        0) \<and>
   (reconnectAttempts s \<le> maxReconnectAttempts \<and> (\<forall>e \<in> set evs. \<not> is_open e) \<longrightarrow>
      reconnectAttempts s \<le>
        reconnectAttempts (fst (run Popup u (RuntimeMessage (UPDATE_API_URL url) # evs) s)))"
proof -
  have cycle: "apiUrl (fst (step Popup u (RuntimeMessage (UPDATE_API_URL url)) s)) = url \<and>
   \<not> isConnected (fst (step Popup u (RuntimeMessage (UPDATE_API_URL url)) s)) \<and>
   ws_readyState (fst (step Popup u (RuntimeMessage (UPDATE_API_URL url)) s)) \<noteq> Some CONNECTING \<and>
   ws_readyState (fst (step Popup u (RuntimeMessage (UPDATE_API_URL url)) s)) \<noteq> Some OPEN \<and>
   reconnectAttempts (fst (step Popup u (RuntimeMessage (UPDATE_API_URL url)) s)) =
     reconnectAttempts s \<and>
   snd (step Popup u (RuntimeMessage (UPDATE_API_URL url)) s) =
     (case ws s of Some i \<Rightarrow> [WsClose i] | None \<Rightarrow> []) @
     [SetTimeout ConnectCb 100, SendResponse success] \<and>
   (u url \<longrightarrow>
      ws (fst (run Popup u [RuntimeMessage (UPDATE_API_URL url), TimerFire ConnectCb] s)) =
        Some (nsockets s) \<and>
      ws_readyState
        (fst (run Popup u [RuntimeMessage (UPDATE_API_URL url), TimerFire ConnectCb] s)) =
        Some CONNECTING \<and>
      last (snd (run Popup u [RuntimeMessage (UPDATE_API_URL url), TimerFire ConnectCb] s)) =
        NewWebSocket (nsockets s) url \<and>
      reconnectAttempts
        (fst (run Popup u [RuntimeMessage (UPDATE_API_URL url), TimerFire ConnectCb] s)) =
        reconnectAttempts s \<and>
      reconnectAttempts (fst (run Popup u
         [RuntimeMessage (UPDATE_API_URL url), TimerFire ConnectCb, SockOpen (nsockets s)] s)) =
        0)"
  proof (cases "ws s")
    case None
    then show ?thesis by (simp add: model_defs)
  next
    case (Some i)
    then show ?thesis by (cases "sockets s i") (simp_all add: model_defs)
  qed
  have never: "reconnectAttempts s \<le>
        reconnectAttempts (fst (run Popup u (RuntimeMessage (UPDATE_API_URL url) # evs) s))"
    if "reconnectAttempts s \<le> maxReconnectAttempts" and "\<forall>e \<in> set evs. \<not> is_open e"
  proof -
    have "\<forall>e \<in> set (RuntimeMessage (UPDATE_API_URL url) # evs). \<not> is_open e"
      using that(2) by simp
    then have "retries_extend s (run Popup u (RuntimeMessage (UPDATE_API_URL url) # evs) s)"
      using that(1) by (rule extend_run[rotated])
    then show ?thesis by (simp only: retries_extend_def)
  qed
  show ?thesis using cycle never by blast
qed

text \<open>
  The connected Popup manager is given a new address: its socket 0 is closed, socket 1 is
  created for the new address, and the counter, 0 before, is 0 after socket 1 opens.
\<close>

theorem url_update_witness:
  "last (snd (run Popup accepts_all
      [RuntimeMessage (UPDATE_API_URL ''ws://example.org:9000''), TimerFire ConnectCb]
      (fst (life Popup accepts_all 0 [SettingsLoaded (Some None), SockOpen 0])))) =
     NewWebSocket 1 ''ws://example.org:9000''"
proof -
  let ?s = "fst (life Popup accepts_all 0 [SettingsLoaded (Some None), SockOpen 0])"
  have n: "nsockets ?s = 1" by (simp add: model_defs)
  have a: "accepts_all ''ws://example.org:9000''" by (simp add: accepts_all_def)
  show ?thesis
    using url_update[of accepts_all "''ws://example.org:9000''" ?s] n a by simp
qed

section \<open>The calendar\<close>







text \<open>
  Claim C4. \<open>conflict A B\<close>, the test \<^verbatim>\<open>hasConflicts\<close> applies to each cached event, is true
  exactly when \<open>A\<close> starts before \<open>B\<close> ends, \<open>A\<close> ends after \<open>B\<close> starts and the ids differ; for
  valid dates these are the comparisons of the time values. \<^verbatim>\<open>hasConflicts\<close> is true exactly
  when some cached event conflicts with the target. Two events of which one ends when the
  other starts do not conflict, in either order, and no event conflicts with itself.
\<close>

theorem conflict_iff:
  "conflict A B =
     (date_lt (ev_start A) (ev_end B) \<and> date_lt (ev_start B) (ev_end A) \<and> ev_id A \<noteq> ev_id B) \<and>
   (ev_start A = Some a1 \<and> ev_end A = Some a2 \<and> ev_start B = Some b1 \<and> ev_end B = Some b2 \<longrightarrow>
      conflict A B = (a1 < b2 \<and> a2 > b1 \<and> ev_id A \<noteq> ev_id B)) \<and>
   hasConflicts c B = (\<exists>A \<in> set (events c). conflict A B) \<and>
   (ev_end A = ev_start B \<longrightarrow> \<not> conflict A B \<and> \<not> conflict B A) \<and>
   \<not> conflict A A"
proof -
  have "\<not> date_lt x x" for x by (cases x) simp_all
  then show ?thesis
    by (auto simp: conflict_def eventsOverlap_def hasConflicts_def list_ex_iff)
qed

text \<open>
  The events of the specification, in milliseconds since midnight: 10:00 to 11:00 against
  11:00 to 12:00, and against 10:30 to 11:30.
\<close>

theorem conflict_iff_witness:
  "\<not> conflict
      \<lparr>ev_id = JStr ''a'', title = JStr ''A'', ev_start = Some 36000000, ev_end = Some 39600000,
       description = JStr [], location = JStr [], priority = JNum 1\<rparr>
      \<lparr>ev_id = JStr ''b'', title = JStr ''B'', ev_start = Some 39600000, ev_end = Some 43200000,
       description = JStr [], location = JStr [], priority = JNum 1\<rparr> \<and>
   conflict
      \<lparr>ev_id = JStr ''a'', title = JStr ''A'', ev_start = Some 36000000, ev_end = Some 39600000,
       description = JStr [], location = JStr [], priority = JNum 1\<rparr>
      \<lparr>ev_id = JStr ''c'', title = JStr ''C'', ev_start = Some 37800000, ev_end = Some 41400000,
       description = JStr [], location = JStr [], priority = JNum 1\<rparr>"
  using conflict_iff[of
      "\<lparr>ev_id = JStr ''a'', title = JStr ''A'', ev_start = Some 36000000, ev_end = Some 39600000,
       description = JStr [], location = JStr [], priority = JNum 1\<rparr>"
      "\<lparr>ev_id = JStr ''b'', title = JStr ''B'', ev_start = Some 39600000, ev_end = Some 43200000,
       description = JStr [], location = JStr [], priority = JNum 1\<rparr>"
      36000000 39600000 39600000 43200000]
    conflict_iff[of
      "\<lparr>ev_id = JStr ''a'', title = JStr ''A'', ev_start = Some 36000000, ev_end = Some 39600000,
       description = JStr [], location = JStr [], priority = JNum 1\<rparr>"
      "\<lparr>ev_id = JStr ''c'', title = JStr ''C'', ev_start = Some 37800000, ev_end = Some 41400000,
       description = JStr [], location = JStr [], priority = JNum 1\<rparr>"
      36000000 39600000 37800000 41400000]
  by simp

section \<open>Offer status updates\<close>

lemma resolved_stays:
  "resolved s = Some v \<Longrightarrow> resolved (fst (sync_run oid st evs s)) = Some v"
proof (induction evs arbitrary: s)
  case Nil
  then show ?case by simp
next
  case (Cons e evs)
  have "resolved (fst (sync_step oid st e s)) = Some v"
    using Cons.prems by (cases "(oid, st, e, s)" rule: sync_step.cases) (simp_all add: resolve_def)
  then show ?case using Cons.IH by (simp add: andThen_def)
qed

lemma first_reply_simps:
  "first_reply [] = None"
  "first_reply (Opened # evs) = first_reply evs"
  "e \<noteq> Opened \<Longrightarrow> first_reply (e # evs) = Some e"
  by (simp_all add: first_reply_def)

lemma resolved_first_reply:
  "resolved s = None \<Longrightarrow> \<not> responseReceived s \<Longrightarrow>
   resolved (fst (sync_run oid st evs s)) = map_option is_acknowledgment (first_reply evs)"
proof (induction evs arbitrary: s)
  case Nil
  then show ?case by (simp add: first_reply_simps)
next
  case (Cons e evs)
  show ?case
  proof (cases "e = Opened")
    case True
    then show ?thesis using Cons by (simp add: andThen_def first_reply_simps)
  next
    case False
    then have "resolved (fst (sync_step oid st e s)) = Some (is_acknowledgment e)"
      using Cons.prems
      by (cases "(oid, st, e, s)" rule: sync_step.cases) (simp_all add: resolve_def)
    then have "resolved (fst (sync_run oid st (e # evs) s)) = Some (is_acknowledgment e)"
      by (simp add: andThen_def resolved_stays)
    then show ?thesis using False by (simp add: first_reply_simps)
  qed
qed

text \<open>
  Claim C10. The promise of \<^verbatim>\<open>syncStatusWithServer\<close> takes its value from the first event
  of the socket other than its opening: true when that event is a response of type
  \<^verbatim>\<open>offer_status_updated\<close> with a truthy \<^verbatim>\<open>success\<close>, false for any other response, an
  unreadable one, an error, a close or the timeout, and false at once when no socket could
  be made. Unless the promise is true, \<^verbatim>\<open>updateOfferStatus\<close> leaves the offers and their
  stored copy as they were; so if it changed them, the server had acknowledged. When the
  promise is true, the offers are the old ones with the status of the first offer of that
  id set.
\<close>

theorem status_update_atomic:
  "syncStatusWithServer u storedUrl offerId newStatus evs =
     (if u (wsUrl_of storedUrl) then map_option is_acknowledgment (first_reply evs)
      else Some False) \<and>
   (syncStatusWithServer u storedUrl offerId newStatus evs \<noteq> Some True \<longrightarrow>
      fst (updateOfferStatus u storedUrl offerId newStatus evs st) = st) \<and>
   (fst (updateOfferStatus u storedUrl offerId newStatus evs st) \<noteq> st \<longrightarrow>
      (\<exists>response. first_reply evs = Some (Received (Some response)) \<and>
         js_get response ''type'' = Some (JStr ''offer_status_updated'') \<and>
         truthy (js_field response ''success''))) \<and>
   (syncStatusWithServer u storedUrl offerId newStatus evs = Some True \<longrightarrow>
      offers (fst (updateOfferStatus u storedUrl offerId newStatus evs st)) =
        set_status (JStr offerId) (JStr newStatus) (offers st))"
proof -
  have 1: "syncStatusWithServer u storedUrl offerId newStatus evs =
     (if u (wsUrl_of storedUrl) then map_option is_acknowledgment (first_reply evs)
      else Some False)"
    by (simp add: syncStatusWithServer_def connectAndSendUpdate_def resolved_first_reply)
  have 2: "fst (updateOfferStatus u storedUrl offerId newStatus evs st) = st"
    if "syncStatusWithServer u storedUrl offerId newStatus evs \<noteq> Some True"
    using that by (auto simp: updateOfferStatus_def andThen_def split: option.splits)
  have 3: "\<exists>response. first_reply evs = Some (Received (Some response)) \<and> acknowledged response"
    if "syncStatusWithServer u storedUrl offerId newStatus evs = Some True"
  proof -
    from that 1 obtain e where e: "first_reply evs = Some e" "is_acknowledgment e"
      by (auto split: if_splits)
    then show ?thesis by (cases e rule: is_acknowledgment.cases) simp_all
  qed
  have unchanged: "find (\<lambda>offer. offer_id offer = oid) os = None \<Longrightarrow> set_status oid v os = os"
    for oid v os
    by (induction os) (auto split: if_splits)
  have 4: "offers (fst (updateOfferStatus u storedUrl offerId newStatus evs st)) =
        set_status (JStr offerId) (JStr newStatus) (offers st)"
    if "syncStatusWithServer u storedUrl offerId newStatus evs = Some True"
    using that
    by (auto simp: updateOfferStatus_def andThen_def unchanged Let_def split: option.splits)
  show ?thesis using 1 2 3 4 by (auto simp: acknowledged_def)
qed

text \<open>
  The socket opens and the five seconds pass without a response: the promise is false and
  the one pending offer is as it was. With an acknowledgment instead, it is accepted.
\<close>

theorem status_update_atomic_witness:
  "fst (updateOfferStatus accepts_all None ''12345678'' ''accepted'' [Opened, TimedOut]
      \<lparr>offers = [\<lparr>offer_id = JStr ''12345678'', status = JStr ''pending'', details = JNull\<rparr>],
       offers_stored = None\<rparr>) =
     \<lparr>offers = [\<lparr>offer_id = JStr ''12345678'', status = JStr ''pending'', details = JNull\<rparr>],
      offers_stored = None\<rparr> \<and>
   offers (fst (updateOfferStatus accepts_all None ''12345678'' ''accepted''
      [Opened, Received (Some (JObj [(''type'', JStr ''offer_status_updated''),
                                     (''success'', JBool True)]))]
      \<lparr>offers = [\<lparr>offer_id = JStr ''12345678'', status = JStr ''pending'', details = JNull\<rparr>],
       offers_stored = None\<rparr>)) =
     [\<lparr>offer_id = JStr ''12345678'', status = JStr ''accepted'', details = JNull\<rparr>]"
  using status_update_atomic[of accepts_all None "''12345678''" "''accepted''" "[Opened, TimedOut]"
      "\<lparr>offers = [\<lparr>offer_id = JStr ''12345678'', status = JStr ''pending'', details = JNull\<rparr>],
        offers_stored = None\<rparr>"]
    status_update_atomic[of accepts_all None "''12345678''" "''accepted''"
      "[Opened, Received (Some (JObj [(''type'', JStr ''offer_status_updated''),
                                      (''success'', JBool True)]))]"
      "\<lparr>offers = [\<lparr>offer_id = JStr ''12345678'', status = JStr ''pending'', details = JNull\<rparr>],
        offers_stored = None\<rparr>"]
  by (simp add: first_reply_def acknowledged_def js_field_def wsUrl_of_def accepts_all_def)

end
